theory Spec2Isabelle
  imports Main "HOL-Library.Multiset"
begin

section \<open>Python values and built-ins used by kafka.py\<close>

text \<open>
  The module \<open>alarmageddon/validations/kafka.py\<close> is Python 2 (\<open>xrange\<close>). Its two
  \<open>perform_on_host\<close> methods use string containment, \<open>str.format\<close>, \<open>re.split\<close>,
  indexing, \<open>zip\<close>, \<open>collections.Counter\<close>, \<open>str.isdigit\<close>, \<open>int\<close>, \<open>%\<close>
  formatting and \<open>str.join\<close>. Each is modelled below as an executable function;
  an operation that can raise returns a value of \<open>error + 'a\<close>.
\<close>

datatype error = IndexError

type_synonym 'a result = "error + 'a"

definition res_bind :: "'a result \<Rightarrow> ('a \<Rightarrow> 'b result) \<Rightarrow> 'b result" where
  "res_bind r f = (case r of Inl e \<Rightarrow> Inl e | Inr x \<Rightarrow> f x)"

abbreviation TAB :: char where "TAB \<equiv> CHR 0x09"
abbreviation LF :: char where "LF \<equiv> CHR 0x0A"
abbreviation VT :: char where "VT \<equiv> CHR 0x0B"
abbreviation FF :: char where "FF \<equiv> CHR 0x0C"
abbreviation CR :: char where "CR \<equiv> CHR 0x0D"
abbreviation BACKSLASH :: char where "BACKSLASH \<equiv> CHR 0x5C"
abbreviation SQUOTE :: char where "SQUOTE \<equiv> CHR 0x27"
abbreviation DQUOTE :: char where "DQUOTE \<equiv> CHR 0x22"

subsection \<open>\<open>x in s\<close> on strings\<close>

fun starts_with :: "string \<Rightarrow> string \<Rightarrow> bool" where
  "starts_with [] s = True"
| "starts_with (p # ps) [] = False"
| "starts_with (p # ps) (c # cs) = (p = c \<and> starts_with ps cs)"

text \<open>\<open>py_in x s\<close> is Python's \<open>x in s\<close>: \<open>x\<close> occurs in \<open>s\<close> as a contiguous block.\<close>

fun py_in :: "string \<Rightarrow> string \<Rightarrow> bool" where
  "py_in x [] = (x = [])"
| "py_in x (c # cs) = (starts_with x (c # cs) \<or> py_in x cs)"

subsection \<open>Indexing, \<open>xrange\<close> and list comprehensions\<close>

text \<open>\<open>xs[i]\<close> for a non-negative index: IndexError when \<open>i\<close> is out of range.\<close>

definition py_index :: "'a list \<Rightarrow> nat \<Rightarrow> 'a result" where
  "py_index xs i = (if i < length xs then Inr (xs ! i) else Inl IndexError)"

text \<open>\<open>xrange(start, stop, step)\<close> for a positive step, with Python's own count of
  elements, \<open>(stop - start + step - 1) // step\<close> when \<open>start < stop\<close> and 0 otherwise.\<close>

definition xrange :: "nat \<Rightarrow> nat \<Rightarrow> nat \<Rightarrow> nat list" where
  "xrange start stop step =
     map (\<lambda>k. start + k * step)
       [0 ..< (if start < stop then (stop - start + step - 1) div step else 0)]"

text \<open>\<open>[f(x) for x in xs if cond(x)]\<close> where both \<open>cond\<close> and \<open>f\<close> may raise: the
  first exception ends the comprehension.\<close>

fun comprehension :: "('a \<Rightarrow> bool result) \<Rightarrow> ('a \<Rightarrow> 'b result) \<Rightarrow> 'a list \<Rightarrow> 'b list result" where
  "comprehension cond f [] = Inr []"
| "comprehension cond f (x # xs) =
     res_bind (cond x) (\<lambda>keep.
       if keep
       then res_bind (f x) (\<lambda>y. res_bind (comprehension cond f xs) (\<lambda>ys. Inr (y # ys)))
       else comprehension cond f xs)"

subsection \<open>\<open>str\<close>, \<open>repr\<close> and \<open>str.format\<close>\<close>

datatype pyval = Str string | Tuple "pyval list"

fun py_join :: "string \<Rightarrow> string list \<Rightarrow> string" where
  "py_join sep [] = []"
| "py_join sep [x] = x"
| "py_join sep (x # y # ys) = x @ sep @ py_join sep (y # ys)"

definition hex_digit :: "nat \<Rightarrow> char" where
  "hex_digit n = ''0123456789abcdef'' ! (n mod 16)"

text \<open>\<open>repr\<close> of a Python 2 byte string: single quotes unless the string has a single
  quote and no double quote; the quote and the backslash are escaped, tab, newline and
  carriage return are written \<open>\t\<close>, \<open>\n\<close>, \<open>\r\<close>, and any other byte outside the
  printable ASCII range as \<open>\xNN\<close>.\<close>

definition repr_quote :: "string \<Rightarrow> char" where
  "repr_quote s = (if SQUOTE \<in> set s \<and> DQUOTE \<notin> set s then DQUOTE else SQUOTE)"

definition repr_char :: "char \<Rightarrow> char \<Rightarrow> string" where
  "repr_char q c =
     (if c = q \<or> c = BACKSLASH then [BACKSLASH, c]
      else if c = TAB then [BACKSLASH, CHR ''t'']
      else if c = LF then [BACKSLASH, CHR ''n'']
      else if c = CR then [BACKSLASH, CHR ''r'']
      else if (of_char c :: nat) < 32 \<or> 127 \<le> (of_char c :: nat)
      then [BACKSLASH, CHR ''x'', hex_digit (of_char c div 16), hex_digit (of_char c)]
      else [c])"

definition repr_str :: "string \<Rightarrow> string" where
  "repr_str s = (let q = repr_quote s in [q] @ concat (map (repr_char q) s) @ [q])"

fun py_repr :: "pyval \<Rightarrow> string" where
  "py_repr (Str s) = repr_str s"
| "py_repr (Tuple vs) =
     ''('' @ py_join '', '' (map py_repr vs) @ (if length vs = 1 then '','' else '''') @ '')''"

definition py_str :: "pyval \<Rightarrow> string" where
  "py_str v = (case v of Str s \<Rightarrow> s | Tuple vs \<Rightarrow> py_repr v)"

text \<open>A format template is a sequence of literal text and positional replacement fields
  \<open>{n}\<close>. \<open>template.format(*args)\<close> renders the pieces from left to right; a field
  whose number is not below the number of positional arguments raises IndexError.\<close>

datatype piece = Lit string | Field nat

fun py_format :: "piece list \<Rightarrow> pyval list \<Rightarrow> string result" where
  "py_format [] args = Inr []"
| "py_format (Lit s # ps) args = res_bind (py_format ps args) (\<lambda>rest. Inr (s @ rest))"
| "py_format (Field n # ps) args =
     res_bind (py_index args n) (\<lambda>v. res_bind (py_format ps args) (\<lambda>rest. Inr (py_str v @ rest)))"

subsection \<open>\<open>str.isdigit\<close>, \<open>int\<close> and \<open>%s\<close> of an integer\<close>

definition is_digit :: "char \<Rightarrow> bool" where
  "is_digit c = (c \<in> set ''0123456789'')"

definition py_isdigit :: "string \<Rightarrow> bool" where
  "py_isdigit s = (s \<noteq> [] \<and> list_all is_digit s)"

text \<open>\<open>int(s)\<close> is only evaluated under the guard \<open>s.isdigit()\<close>, where it cannot raise:
  the decimal reading of a string of digits.\<close>

definition digit_val :: "char \<Rightarrow> int" where
  "digit_val c = int (of_char c) - 48"

definition py_int :: "string \<Rightarrow> int" where
  "py_int s = foldl (\<lambda>acc c. 10 * acc + digit_val c) 0 s"

fun str_nat :: "nat \<Rightarrow> string" where
  "str_nat n = (if n < 10 then [''0123456789'' ! n]
                else str_nat (n div 10) @ [''0123456789'' ! (n mod 10)])"

declare str_nat.simps [simp del]

definition str_int :: "int \<Rightarrow> string" where
  "str_int i = (if i < 0 then CHR ''-'' # str_nat (nat (- i)) else str_nat (nat i))"

subsection \<open>The three uses of \<open>re.split\<close>\<close>

text \<open>\<open>push c fs\<close> puts a character in front of the first field of a split.\<close>

fun push :: "char \<Rightarrow> string list \<Rightarrow> string list" where
  "push c [] = [[c]]"
| "push c (f # fs) = (c # f) # fs"

text \<open>\<open>re.split(r'\t|\n', s)\<close>: a new field starts after every tab and every newline.\<close>

fun re_split_tab_nl :: "string \<Rightarrow> string list" where
  "re_split_tab_nl [] = [[]]"
| "re_split_tab_nl (c # cs) =
     (if c = TAB \<or> c = LF then [] # re_split_tab_nl cs else push c (re_split_tab_nl cs))"

text \<open>\<open>re.split(r'\t|\r\n', s)\<close>: a new field starts after every tab and after every
  carriage return that is followed by a newline; a lone \<open>\r\<close> or \<open>\n\<close> stays in its
  field.\<close>

fun re_split_tab_crlf :: "string \<Rightarrow> string list" where
  "re_split_tab_crlf [] = [[]]"
| "re_split_tab_crlf [c] = (if c = TAB then [[], []] else [[c]])"
| "re_split_tab_crlf (c # d # cs) =
     (if c = TAB then [] # re_split_tab_crlf (d # cs)
      else if c = CR \<and> d = LF then [] # re_split_tab_crlf cs
      else push c (re_split_tab_crlf (d # cs)))"

text \<open>\<open>\s\<close> in a Python 2 pattern over a byte string, without flags: space, tab,
  newline, carriage return, form feed, vertical tab.\<close>

definition is_space :: "char \<Rightarrow> bool" where
  "is_space c = (c \<in> {CHR '' '', TAB, LF, CR, FF, VT})"

text \<open>\<open>re.split(r'\s\s+', s)\<close>: the separators are the maximal runs of two or more
  whitespace characters (the match is leftmost and greedy); a single whitespace character
  between two others stays in its field.\<close>

function re_split_ws2 :: "string \<Rightarrow> string list" where
  "re_split_ws2 [] = [[]]"
| "re_split_ws2 [c] = [[c]]"
| "re_split_ws2 (c # d # cs) =
     (if is_space c \<and> is_space d then [] # re_split_ws2 (dropWhile is_space cs)
      else push c (re_split_ws2 (d # cs)))"
  by pat_completeness auto
termination
proof (relation "measure length")
  fix c d :: char and cs :: string
  have "length (dropWhile is_space cs) \<le> length cs"
    by (rule length_dropWhile_le)
  then show "(dropWhile is_space cs, c # d # cs) \<in> measure length"
    by simp
qed simp_all

subsection \<open>\<open>collections.Counter\<close>\<close>

text \<open>\<open>Counter(xs)\<close> counts the elements of \<open>xs\<close> from left to right. The model keeps
  the counts as an association list with one entry per distinct element. Python 2
  enumerates a dictionary in the order of its hash table, which the program does not
  control: \<open>items()\<close> is the association list rearranged by a function
  \<open>items_order\<close> that the checker takes as a parameter.\<close>

fun counter_add :: "'a \<Rightarrow> ('a \<times> nat) list \<Rightarrow> ('a \<times> nat) list" where
  "counter_add x [] = [(x, 1)]"
| "counter_add x ((k, n) # kvs) =
     (if k = x then (k, n + 1) # kvs else (k, n) # counter_add x kvs)"

definition Counter :: "'a list \<Rightarrow> ('a \<times> nat) list" where
  "Counter xs = foldl (\<lambda>c x. counter_add x c) [] xs"

text \<open>What every dictionary order satisfies: the items come out once each.\<close>

definition dict_order :: "(('a \<times> nat) list \<Rightarrow> ('a \<times> nat) list) \<Rightarrow> bool" where
  "dict_order items_order = (\<forall>kvs. mset (items_order kvs) = mset kvs)"

section \<open>The validation framework\<close>

type_synonym host = string
type_synonym report = "host \<times> string"

text \<open>
  Modelled from the spec: \<open>SshValidation.fail_on_host\<close> is defined in
  \<open>alarmageddon/validations/ssh.py\<close>, which is not among the sources. The spec gives it
  as \<open>fail(host, message)\<close>, which records a failure for the given host with a
  diagnostic message, the absence of a call meaning pass. The state of a validation is
  the list of failures recorded so far.
\<close>

definition fail_on_host :: "host \<Rightarrow> string \<Rightarrow> report list \<Rightarrow> report list" where
  "fail_on_host host message reports = reports @ [(host, message)]"

text \<open>\<open>error_patterns\<close> and \<open>any(x in output for x in error_patterns)\<close>, lines 57-59
  and 115-117.\<close>

definition error_patterns :: "string list" where
  "error_patterns = [''No such file'', ''Missing required argument'', ''Exception'']"

definition has_error_pattern :: "string \<Rightarrow> bool" where
  "has_error_pattern output = list_ex (\<lambda>x. py_in x output) error_patterns"

section \<open>KafkaStatusValidation\<close>

record KafkaStatusValidation =
  kafka_list_topic_command :: string
  zookeeper_nodes :: string

definition status_command :: "KafkaStatusValidation \<Rightarrow> string" where
  "status_command self = kafka_list_topic_command self @ '' --zookeeper '' @ zookeeper_nodes self"

text \<open>Lines 60-62: the argument of the first \<open>fail_on_host\<close>. The method \<open>format\<close>
  belongs to the second string literal and is given one positional argument, the pair
  \<open>(host, output)\<close>.\<close>

definition status_error_message :: "host \<Rightarrow> string \<Rightarrow> string result" where
  "status_error_message host output =
     res_bind
       (py_format [Lit ''checking Kafka cluster health on '', Field 0, Lit '' ('', Field 1, Lit '')'']
          [Tuple [Str host, Str output]])
       (\<lambda>s. Inr (''An exception occurred while '' @ s))"

text \<open>Lines 63-67: \<open>parsed\<close>, \<open>topics\<close>, \<open>leaders\<close> and \<open>tuples\<close>.\<close>

definition status_topics :: "string list \<Rightarrow> string list result" where
  "status_topics parsed =
     comprehension (\<lambda>i. Inr True) (py_index parsed) (xrange 0 (length parsed) 5)"

definition status_leaders :: "string list \<Rightarrow> string list result" where
  "status_leaders parsed =
     comprehension (\<lambda>i. Inr True) (py_index parsed) (xrange 2 (length parsed) 5)"

definition status_tuples :: "string \<Rightarrow> (string \<times> string) list result" where
  "status_tuples output =
     (let parsed = re_split_tab_nl output in
      res_bind (status_topics parsed) (\<lambda>topics.
      res_bind (status_leaders parsed) (\<lambda>leaders.
      Inr (zip topics leaders))))"

text \<open>Line 68: \<open>duplicates\<close>.\<close>

definition status_duplicates ::
  "(((string \<times> string) \<times> nat) list \<Rightarrow> ((string \<times> string) \<times> nat) list) \<Rightarrow>
   (string \<times> string) list \<Rightarrow> (string \<times> string) list" where
  "status_duplicates items_order tuples =
     map fst (filter (\<lambda>(x, y). y > 1) (items_order (Counter tuples)))"

text \<open>Lines 71-76: the argument of the second \<open>fail_on_host\<close>.\<close>

definition status_message :: "(string \<times> string) list \<Rightarrow> string" where
  "status_message duplicates =
     ''Kafka partitions are out of sync. '' @
     ''Multiple leaders for the same partition '' @
     ''for the same replica: '' @
     py_join '', '' (map (\<lambda>dup. fst dup @ '' has '' @ snd dup) duplicates)"

text \<open>\<open>perform_on_host\<close>, lines 50-76. \<open>run\<close> is fabric's remote execution, from the
  command to its output. The result is the exception that left the method, if any, and
  the failures recorded when it ended.\<close>

definition perform_on_host_status ::
  "(((string \<times> string) \<times> nat) list \<Rightarrow> ((string \<times> string) \<times> nat) list) \<Rightarrow>
   (string \<Rightarrow> string) \<Rightarrow> KafkaStatusValidation \<Rightarrow> host \<Rightarrow> report list \<Rightarrow>
   error option \<times> report list" where
  "perform_on_host_status items_order run self host reports =
     (let output = run (status_command self) in
      case (if has_error_pattern output
            then res_bind (status_error_message host output)
                   (\<lambda>message. Inr (fail_on_host host message reports))
            else Inr reports) of
        Inl e \<Rightarrow> (Some e, reports)
      | Inr reports1 \<Rightarrow>
          (case status_tuples output of
             Inl e \<Rightarrow> (Some e, reports1)
           | Inr tuples \<Rightarrow>
               (let duplicates = status_duplicates items_order tuples in
                if length duplicates \<noteq> 0
                then (None, fail_on_host host (status_message duplicates) reports1)
                else (None, reports1))))"

section \<open>KafkaConsumerLagMonitor\<close>

record KafkaConsumerLagMonitor =
  lag_zookeeper_nodes :: string

definition lag_command :: "KafkaConsumerLagMonitor \<Rightarrow> string" where
  "lag_command self =
     ''/usr/local/kafka/bin/kafka-run-class.sh kafka.tools.ConsumerOffsetChecker --group find_delivery'' @
     '' --zkconnect '' @ lag_zookeeper_nodes self"

text \<open>Lines 118-120: the argument of the first \<open>fail_on_host\<close>.\<close>

definition lag_error_message :: "host \<Rightarrow> string \<Rightarrow> string result" where
  "lag_error_message host output =
     res_bind
       (py_format [Lit ''checking Kafka consumer lag on '', Field 0, Lit '' ('', Field 1, Lit '')'']
          [Tuple [Str host, Str output]])
       (\<lambda>s. Inr (''An exception occurred while '' @ s))"

text \<open>Lines 122-123: the rows, each a list of fields, of the lines with more than two
  fields.\<close>

definition lag_rows :: "string \<Rightarrow> string list list" where
  "lag_rows output =
     map re_split_ws2 (filter (\<lambda>p. length (re_split_ws2 p) > 2) (re_split_tab_crlf output))"

text \<open>Lines 124-126: three comprehensions over the same rows.\<close>

definition lag_topics :: "string list list \<Rightarrow> string list result" where
  "lag_topics rows =
     comprehension (\<lambda>item. res_bind (py_index item 1) (\<lambda>t. Inr (t \<noteq> ''Topic'')))
       (\<lambda>item. py_index item 1) rows"

definition lag_pids :: "string list list \<Rightarrow> string list result" where
  "lag_pids rows =
     comprehension (\<lambda>item. res_bind (py_index item 2) (\<lambda>p. Inr (py_isdigit p)))
       (\<lambda>item. py_index item 2) rows"

definition lag_lags :: "string list list \<Rightarrow> int list result" where
  "lag_lags rows =
     comprehension (\<lambda>item. res_bind (py_index item 5) (\<lambda>l. Inr (py_isdigit l)))
       (\<lambda>item. res_bind (py_index item 5) (\<lambda>l. Inr (py_int l))) rows"

text \<open>Lines 128-129: \<open>tuples\<close> and \<open>laggers\<close>.\<close>

definition lag_tuples :: "string \<Rightarrow> (string \<times> string \<times> int) list result" where
  "lag_tuples output =
     (let parsed = lag_rows output in
      res_bind (lag_topics parsed) (\<lambda>topics.
      res_bind (lag_pids parsed) (\<lambda>pids.
      res_bind (lag_lags parsed) (\<lambda>lags.
      Inr (zip topics (zip pids lags))))))"

definition laggers_of :: "(string \<times> string \<times> int) list \<Rightarrow> (string \<times> string \<times> int) list" where
  "laggers_of tuples = filter (\<lambda>(x, y, z). z > 5) tuples"

text \<open>Lines 131-134: the argument of the second \<open>fail_on_host\<close>.\<close>

definition lag_message :: "(string \<times> string \<times> int) list \<Rightarrow> string" where
  "lag_message laggers =
     ''Kafka consumers are lagging on topic '' @
     py_join '', ''
       (map (\<lambda>(topic, pid, lag).
               topic @ '' on PID '' @ pid @ '' is lagging by '' @ str_int lag @ '' messages.'')
          laggers)"

text \<open>\<open>perform_on_host\<close>, lines 108-134.\<close>

definition perform_on_host_lag ::
  "(string \<Rightarrow> string) \<Rightarrow> KafkaConsumerLagMonitor \<Rightarrow> host \<Rightarrow> report list \<Rightarrow>
   error option \<times> report list" where
  "perform_on_host_lag run self host reports =
     (let output = run (lag_command self) in
      case (if has_error_pattern output
            then res_bind (lag_error_message host output)
                   (\<lambda>message. Inr (fail_on_host host message reports))
            else Inr reports) of
        Inl e \<Rightarrow> (Some e, reports)
      | Inr reports1 \<Rightarrow>
          (case lag_tuples output of
             Inl e \<Rightarrow> (Some e, reports1)
           | Inr tuples \<Rightarrow>
               (let laggers = laggers_of tuples in
                if length laggers \<noteq> 0
                then (None, fail_on_host host (lag_message laggers) reports1)
                else (None, reports1))))"

section \<open>Failure markers\<close>

text \<open>
  The template of the diagnostic has the fields \<open>{0}\<close> and \<open>{1}\<close>, and
  \<open>format\<close> is called with one argument: building the message always raises.
\<close>

lemma status_error_message_raises: "status_error_message host output = Inl IndexError"
  by (simp add: status_error_message_def res_bind_def py_index_def)

lemma lag_error_message_raises: "lag_error_message host output = Inl IndexError"
  by (simp add: lag_error_message_def res_bind_def py_index_def)

lemma status_marker_raises:
  "has_error_pattern (run (status_command self)) \<Longrightarrow>
   perform_on_host_status items_order run self host reports = (Some IndexError, reports)"
  by (simp add: perform_on_host_status_def status_error_message_raises res_bind_def)

lemma lag_marker_raises:
  "has_error_pattern (run (lag_command self)) \<Longrightarrow>
   perform_on_host_lag run self host reports = (Some IndexError, reports)"
  by (simp add: perform_on_host_lag_def lag_error_message_raises res_bind_def)

lemma has_error_pattern_Exception: "has_error_pattern ''Exception''"
  by (simp add: has_error_pattern_def error_patterns_def)

lemma has_error_pattern_No_such_file: "has_error_pattern ''No such file''"
  by (simp add: has_error_pattern_def error_patterns_def)

lemma has_error_pattern_Missing: "has_error_pattern ''Missing required argument''"
  by (simp add: has_error_pattern_def error_patterns_def)

text \<open>
  Claim C1. For every output with one of the three failure markers, \<open>perform_on_host\<close>
  of either checker should report a failure for the host whose message has the host and
  the output in it, and should not go on to parsing. On the output \<open>Exception\<close> the
  code does not get as far as \<open>fail_on_host\<close>: building the message raises IndexError
  (\<open>format\<close> is given the pair \<open>(host, output)\<close> as its only argument, so the field
  \<open>{1}\<close> has nothing to refer to), the exception leaves the method and no failure is
  recorded. By \<open>status_marker_raises\<close> and \<open>lag_marker_raises\<close> the same happens on
  every output with a marker.
\<close>

theorem marker_output_raises_IndexError:
  "perform_on_host_status items_order (\<lambda>command. ''Exception'') self host reports
     = (Some IndexError, reports)
   \<and> perform_on_host_lag (\<lambda>command. ''Exception'') self' host reports
     = (Some IndexError, reports)"
  by (simp add: status_marker_raises lag_marker_raises has_error_pattern_Exception)

section \<open>The stride-5 extraction of the status checker\<close>

lemma div5_less: "(k::nat) < a div 5 \<Longrightarrow> k * 5 + 5 \<le> a"
proof -
  assume "k < a div 5"
  then have "Suc k \<le> a div 5" by simp
  then have "Suc k * 5 \<le> a" by (simp add: less_eq_div_iff_mult_less_eq)
  then show ?thesis by simp
qed

lemma xrange5_bound:
  assumes "i \<in> set (xrange start stop 5)"
  shows "i < stop"
proof (cases "start < stop")
  case False
  with assms show ?thesis by (simp add: xrange_def)
next
  case True
  with assms have "i \<in> set (map (\<lambda>k. start + k * 5) [0 ..< (stop - start + 5 - 1) div 5])"
    unfolding xrange_def by (simp only: if_True)
  then obtain k where i: "i = start + k * 5" and "k \<in> set [0 ..< (stop - start + 5 - 1) div 5]"
    unfolding set_map by (rule imageE)
  then have k: "k < (stop - start + 5 - 1) div 5" by simp
  from div5_less [OF k] True show ?thesis unfolding i by linarith
qed

lemma length_xrange5_0: "length (xrange 0 n 5) = (n + 4) div 5"
  by (simp add: xrange_def add.commute)

lemma length_xrange5_2: "length (xrange 2 n 5) = (n + 2) div 5"
  by (simp add: xrange_def)

lemma comprehension_index:
  "\<forall>i \<in> set is. i < length xs \<Longrightarrow>
   comprehension (\<lambda>i. Inr True) (py_index xs) is = Inr (map ((!) xs) is)"
  by (induction "is") (simp_all add: res_bind_def py_index_def)

lemma status_topics_eq:
  "status_topics parsed = Inr (map ((!) parsed) (xrange 0 (length parsed) 5))"
  unfolding status_topics_def by (rule comprehension_index) (simp add: xrange5_bound)

lemma status_leaders_eq:
  "status_leaders parsed = Inr (map ((!) parsed) (xrange 2 (length parsed) 5))"
  unfolding status_leaders_def by (rule comprehension_index) (simp add: xrange5_bound)

lemma status_tuples_eq:
  "status_tuples output =
     Inr (zip (map ((!) (re_split_tab_nl output)) (xrange 0 (length (re_split_tab_nl output)) 5))
              (map ((!) (re_split_tab_nl output)) (xrange 2 (length (re_split_tab_nl output)) 5)))"
  by (simp add: status_tuples_def status_topics_eq status_leaders_eq res_bind_def Let_def)

lemma xrange_0_5: "xrange 0 n 5 = map (\<lambda>k. k * 5) [0 ..< (n + 4) div 5]"
proof (cases "0 < n")
  case True
  then have "n - 0 + 5 - 1 = n + 4" by simp
  with True show ?thesis unfolding xrange_def by (simp add: add.commute)
next
  case False
  then show ?thesis unfolding xrange_def by simp
qed

lemma xrange_2_5: "xrange 2 n 5 = map (\<lambda>k. 2 + k * 5) [0 ..< (n + 2) div 5]"
proof (cases "2 < n")
  case True
  then have "n - 2 + 5 - 1 = n + 2" by simp
  with True show ?thesis unfolding xrange_def by (simp only: if_True)
next
  case False
  then have "n + 2 < 5" by simp
  then have "(n + 2) div 5 = 0" by (rule div_less)
  with False show ?thesis unfolding xrange_def by (simp only: if_False upt_0 list.map)
qed

lemma zip_strides_aux:
  "zip (map ((!) xs) (xrange 0 n 5)) (map ((!) xs) (xrange 2 n 5)) =
   map (\<lambda>k. (xs ! (k * 5), xs ! (2 + k * 5))) [0 ..< (n + 2) div 5]"
proof -
  have le: "(n + 2) div 5 \<le> (n + 4) div 5" by (rule div_le_mono) simp
  show ?thesis
    unfolding xrange_0_5 xrange_2_5
  proof (rule nth_equalityI)
    show "length (zip (map ((!) xs) (map (\<lambda>k. k * 5) [0..<(n + 4) div 5]))
            (map ((!) xs) (map (\<lambda>k. 2 + k * 5) [0..<(n + 2) div 5]))) =
          length (map (\<lambda>k. (xs ! (k * 5), xs ! (2 + k * 5))) [0..<(n + 2) div 5])"
      using le by simp
  next
    fix i
    assume "i < length (zip (map ((!) xs) (map (\<lambda>k. k * 5) [0..<(n + 4) div 5]))
            (map ((!) xs) (map (\<lambda>k. 2 + k * 5) [0..<(n + 2) div 5])))"
    then have i: "i < (n + 2) div 5" "i < (n + 4) div 5" using le by simp_all
    then show "zip (map ((!) xs) (map (\<lambda>k. k * 5) [0..<(n + 4) div 5]))
            (map ((!) xs) (map (\<lambda>k. 2 + k * 5) [0..<(n + 2) div 5])) ! i =
          map (\<lambda>k. (xs ! (k * 5), xs ! (2 + k * 5))) [0..<(n + 2) div 5] ! i"
      by simp
  qed
qed

lemma zip_strides:
  "zip (map ((!) xs) (xrange 0 n 5)) (map ((!) xs) (xrange 2 n 5)) =
   map (\<lambda>k. (xs ! (5 * k), xs ! (5 * k + 2))) [0 ..< (n + 2) div 5]"
proof -
  have "(\<lambda>k. (xs ! (k * 5), xs ! (2 + k * 5))) = (\<lambda>k. (xs ! (5 * k), xs ! (5 * k + 2)))"
    by (simp add: mult.commute add.commute)
  then show ?thesis by (simp only: zip_strides_aux)
qed

text \<open>
  Claim C10. For every output the stride-5 extraction of the status checker is total:
  the indices \<open>0, 5, 10, ...\<close> and \<open>2, 7, 12, ...\<close> are within the token list, so
  \<open>topics\<close>, \<open>leaders\<close> and \<open>tuples\<close> are computed without an exception; and when
  the number of tokens modulo 5 is 1 or 2, \<open>topics\<close> has one element more than
  \<open>leaders\<close> and \<open>zip\<close> drops it: the pairs are those of the complete groups of
  five that come before.
\<close>

theorem stride5_extraction_total:
  "(\<forall>i \<in> set (xrange 0 (length (re_split_tab_nl output)) 5). i < length (re_split_tab_nl output))
   \<and> (\<forall>i \<in> set (xrange 2 (length (re_split_tab_nl output)) 5). i < length (re_split_tab_nl output))
   \<and> (\<exists>topics leaders.
         status_topics (re_split_tab_nl output) = Inr topics
       \<and> status_leaders (re_split_tab_nl output) = Inr leaders
       \<and> status_tuples output = Inr (zip topics leaders)
       \<and> (length (re_split_tab_nl output) mod 5 \<in> {1, 2} \<longrightarrow>
            length topics = length (re_split_tab_nl output) div 5 + 1
          \<and> length leaders = length (re_split_tab_nl output) div 5
          \<and> zip topics leaders =
              map (\<lambda>k. (re_split_tab_nl output ! (5 * k), re_split_tab_nl output ! (5 * k + 2)))
                [0 ..< length (re_split_tab_nl output) div 5]))"
proof -
  define parsed where "parsed = re_split_tab_nl output"
  define n where "n = length parsed"
  have 1: "\<forall>i \<in> set (xrange 0 n 5). i < n" by (simp add: xrange5_bound)
  have 2: "\<forall>i \<in> set (xrange 2 n 5). i < n" by (simp add: xrange5_bound)
  let ?topics = "map ((!) parsed) (xrange 0 n 5)"
  let ?leaders = "map ((!) parsed) (xrange 2 n 5)"
  have t: "status_topics parsed = Inr ?topics" unfolding n_def by (rule status_topics_eq)
  have l: "status_leaders parsed = Inr ?leaders" unfolding n_def by (rule status_leaders_eq)
  have z: "status_tuples output = Inr (zip ?topics ?leaders)"
    unfolding n_def parsed_def by (rule status_tuples_eq)
  have m: "n mod 5 \<in> {1, 2} \<longrightarrow>
            length ?topics = n div 5 + 1 \<and> length ?leaders = n div 5
          \<and> zip ?topics ?leaders = map (\<lambda>k. (parsed ! (5 * k), parsed ! (5 * k + 2))) [0 ..< n div 5]"
  proof
    assume "n mod 5 \<in> {1, 2}"
    then have "n mod 5 = 1 \<or> n mod 5 = 2" by simp
    then have a: "(n + 4) div 5 = n div 5 + 1" and b: "(n + 2) div 5 = n div 5"
      by presburger+
    have "length ?topics = n div 5 + 1"
      by (simp only: length_map length_xrange5_0 a)
    moreover have "length ?leaders = n div 5"
      by (simp only: length_map length_xrange5_2 b)
    moreover have "zip ?topics ?leaders = map (\<lambda>k. (parsed ! (5 * k), parsed ! (5 * k + 2))) [0 ..< n div 5]"
      by (simp only: zip_strides b)
    ultimately show "length ?topics = n div 5 + 1 \<and> length ?leaders = n div 5
          \<and> zip ?topics ?leaders = map (\<lambda>k. (parsed ! (5 * k), parsed ! (5 * k + 2))) [0 ..< n div 5]"
      by blast
  qed
  from 1 2 t l z m show ?thesis
    unfolding n_def parsed_def by blast
qed

text \<open>
  Six tokens: the sixth is a topic without a leader, and the only pair is that of the
  first group.
\<close>

theorem stride5_extraction_total_witness:
  "length (re_split_tab_nl (''a'' @ [TAB] @ ''b'' @ [TAB] @ ''c'' @ [TAB] @ ''d'' @ [TAB] @ ''e'' @ [LF] @ ''f'')) mod 5 = 1
   \<and> status_tuples (''a'' @ [TAB] @ ''b'' @ [TAB] @ ''c'' @ [TAB] @ ''d'' @ [TAB] @ ''e'' @ [LF] @ ''f'')
     = Inr [(''a'', ''c'')]"
proof -
  let ?output = "''a'' @ [TAB] @ ''b'' @ [TAB] @ ''c'' @ [TAB] @ ''d'' @ [TAB] @ ''e'' @ [LF] @ ''f''"
  have p: "re_split_tab_nl ?output = [''a'', ''b'', ''c'', ''d'', ''e'', ''f'']"
    by simp
  have u: "[0 ..< Suc 0] = [0]" by simp
  from stride5_extraction_total [of ?output] show ?thesis
    unfolding p by (auto simp: u)
qed

section \<open>Counting duplicates\<close>

lemma counter_add_keys:
  "map fst (counter_add x c) = (if x \<in> set (map fst c) then map fst c else map fst c @ [x])"
  by (induction c) force+

lemma counter_add_distinct:
  "distinct (map fst c) \<Longrightarrow> distinct (map fst (counter_add x c))"
  by (simp add: counter_add_keys)

lemma counter_add_map_of:
  "map_of (counter_add x c) k =
     (if k = x then Some (case map_of c x of None \<Rightarrow> 1 | Some n \<Rightarrow> n + 1) else map_of c k)"
  by (induction c) auto

lemma Counter_snoc: "Counter (xs @ [x]) = counter_add x (Counter xs)"
  by (simp add: Counter_def)

lemma Counter_distinct: "distinct (map fst (Counter xs))"
  by (induction xs rule: rev_induct) (simp_all add: Counter_snoc counter_add_distinct Counter_def)

lemma Counter_map_of:
  "map_of (Counter xs) k = (if k \<in> set xs then Some (count_list xs k) else None)"
proof (induction xs arbitrary: k rule: rev_induct)
  case Nil
  show ?case by (simp add: Counter_def)
next
  case (snoc x xs)
  have "x \<notin> set xs \<Longrightarrow> count_list xs x = 0" by simp
  then show ?case
    by (simp add: Counter_snoc counter_add_map_of snoc.IH)
qed

lemma Counter_set:
  "(k, n) \<in> set (Counter xs) \<longleftrightarrow> k \<in> set xs \<and> n = count_list xs k"
proof -
  have "(k, n) \<in> set (Counter xs) \<longleftrightarrow> map_of (Counter xs) k = Some n"
    using Counter_distinct [of xs] by simp
  then show ?thesis by (auto simp: Counter_map_of)
qed

lemma dict_order_set: "dict_order ord \<Longrightarrow> set (ord kvs) = set kvs"
  unfolding dict_order_def by (metis mset_eq_setD)

lemma dict_order_distinct_keys:
  assumes "dict_order ord" and "distinct (map fst kvs)"
  shows "distinct (map fst (ord kvs))"
proof -
  from assms(1) have "mset (ord kvs) = mset kvs" by (simp add: dict_order_def)
  then have "mset (map fst (ord kvs)) = mset (map fst kvs)" by (metis mset_map)
  with assms(2) show ?thesis by (metis mset_eq_imp_distinct_iff)
qed

lemma dict_order_single: "dict_order ord \<Longrightarrow> ord [kv] = [kv]"
  unfolding dict_order_def by (metis mset_single_iff_right mset.simps)

lemma dict_order_id: "dict_order (\<lambda>kvs. kvs)"
  by (simp add: dict_order_def)

lemma status_duplicates_set:
  assumes "dict_order ord"
  shows "set (status_duplicates ord ts) = {p \<in> set ts. 1 < count_list ts p}"
  unfolding status_duplicates_def
  by (auto simp: dict_order_set [OF assms] Counter_set image_iff)

lemma status_duplicates_distinct:
  assumes "dict_order ord"
  shows "distinct (status_duplicates ord ts)"
  unfolding status_duplicates_def
  by (rule distinct_map_filter) (rule dict_order_distinct_keys [OF assms Counter_distinct])

lemma count_list_pos: "p \<in> set ts \<Longrightarrow> 0 < count_list ts p"
  using count_list_0_iff [of ts p] by simp

lemma distinct_count_list: "distinct ts \<Longrightarrow> p \<in> set ts \<Longrightarrow> count_list ts p = 1"
  by (induction ts) auto

lemma not_distinct_count_list: "\<not> distinct ts \<Longrightarrow> \<exists>p \<in> set ts. 1 < count_list ts p"
proof (induction ts)
  case Nil
  then show ?case by simp
next
  case (Cons a ts)
  show ?case
  proof (cases "a \<in> set ts")
    case True
    then have "1 < count_list (a # ts) a" using count_list_pos [of a ts] by simp
    then show ?thesis by auto
  next
    case False
    with Cons.prems have "\<not> distinct ts" by simp
    with Cons.IH obtain p where "p \<in> set ts" "1 < count_list ts p" by blast
    then have "p \<in> set (a # ts)" "1 < count_list (a # ts) p" by simp_all
    then show ?thesis by blast
  qed
qed

lemma status_duplicates_empty_iff:
  assumes "dict_order ord"
  shows "status_duplicates ord ts = [] \<longleftrightarrow> distinct ts"
proof
  assume "status_duplicates ord ts = []"
  then have "{p \<in> set ts. 1 < count_list ts p} = {}"
    using status_duplicates_set [OF assms, of ts] by simp
  then show "distinct ts" using not_distinct_count_list [of ts] by blast
next
  assume "distinct ts"
  then have "{p \<in> set ts. 1 < count_list ts p} = {}"
    by (auto simp: distinct_count_list)
  then have "set (status_duplicates ord ts) = {}"
    by (simp only: status_duplicates_set [OF assms])
  then show "status_duplicates ord ts = []" by simp
qed

section \<open>The verdict of the status checker\<close>

lemma perform_status_no_marker:
  assumes "\<not> has_error_pattern (run (status_command self))"
      and "status_tuples (run (status_command self)) = Inr tuples"
  shows "perform_on_host_status items_order run self host reports =
         (if status_duplicates items_order tuples = [] then (None, reports)
          else (None, fail_on_host host (status_message (status_duplicates items_order tuples)) reports))"
  using assms by (simp add: perform_on_host_status_def Let_def)

text \<open>
  Claim C3. For every output with none of the three markers whose parsed records have no
  duplicate (topic, leader) pair, the status checker passes: \<open>perform_on_host\<close> returns
  without an exception and without calling \<open>fail_on_host\<close>. The records are always
  parsed (the extraction is total), and an output that yields no record passes.
\<close>

theorem status_without_duplicates_passes:
  assumes "dict_order items_order"
      and "\<not> has_error_pattern (run (status_command self))"
  shows "\<exists>tuples. status_tuples (run (status_command self)) = Inr tuples
           \<and> (distinct tuples \<longrightarrow>
                perform_on_host_status items_order run self host reports = (None, reports))
           \<and> (tuples = [] \<longrightarrow>
                perform_on_host_status items_order run self host reports = (None, reports))"
proof -
  obtain tuples where t: "status_tuples (run (status_command self)) = Inr tuples"
    using status_tuples_eq by blast
  have d: "distinct tuples \<Longrightarrow>
        perform_on_host_status items_order run self host reports = (None, reports)"
    using perform_status_no_marker [where run = run and self = self, OF assms(2) t] status_duplicates_empty_iff [OF assms(1)]
    by simp
  from d have "tuples = [] \<Longrightarrow>
        perform_on_host_status items_order run self host reports = (None, reports)"
    by simp
  with t d show ?thesis by blast
qed

text \<open>
  Two partitions of one topic with different leaders.
\<close>

theorem status_without_duplicates_passes_witness:
  "dict_order (\<lambda>kvs. kvs)
   \<and> \<not> has_error_pattern (''a'' @ [TAB] @ ''0'' @ [TAB] @ ''1'' @ [TAB] @ ''r'' @ [TAB] @ ''i'' @ [LF] @
                           ''a'' @ [TAB] @ ''1'' @ [TAB] @ ''2'' @ [TAB] @ ''r'' @ [TAB] @ ''i'')
   \<and> status_tuples (''a'' @ [TAB] @ ''0'' @ [TAB] @ ''1'' @ [TAB] @ ''r'' @ [TAB] @ ''i'' @ [LF] @
                           ''a'' @ [TAB] @ ''1'' @ [TAB] @ ''2'' @ [TAB] @ ''r'' @ [TAB] @ ''i'')
       = Inr [(''a'', ''1''), (''a'', ''2'')]
   \<and> perform_on_host_status (\<lambda>kvs. kvs)
        (\<lambda>command. ''a'' @ [TAB] @ ''0'' @ [TAB] @ ''1'' @ [TAB] @ ''r'' @ [TAB] @ ''i'' @ [LF] @
                    ''a'' @ [TAB] @ ''1'' @ [TAB] @ ''2'' @ [TAB] @ ''r'' @ [TAB] @ ''i'')
        \<lparr>kafka_list_topic_command = ''/opt/kafka/bin/kafka-list-topic.sh'', zookeeper_nodes = ''zk:2181''\<rparr>
        ''broker1'' [] = (None, [])"
proof -
  let ?output = "''a'' @ [TAB] @ ''0'' @ [TAB] @ ''1'' @ [TAB] @ ''r'' @ [TAB] @ ''i'' @ [LF] @
                 ''a'' @ [TAB] @ ''1'' @ [TAB] @ ''2'' @ [TAB] @ ''r'' @ [TAB] @ ''i''"
  have m: "\<not> has_error_pattern ?output"
    by (simp add: has_error_pattern_def error_patterns_def)
  have t: "status_tuples ?output = Inr [(''a'', ''1''), (''a'', ''2'')]"
    by code_simp
  from status_without_duplicates_passes [OF dict_order_id, of "\<lambda>command. ?output"
       "\<lparr>kafka_list_topic_command = ''/opt/kafka/bin/kafka-list-topic.sh'', zookeeper_nodes = ''zk:2181''\<rparr>"
       "''broker1''" "[]"] m t dict_order_id
  show ?thesis by simp
qed

text \<open>
  Claim C4 as stated: the failure message enumerates each duplicated pair together with
  its occurrence count. On two identical groups \<open>t p l r i\<close> the pair \<open>(t, l)\<close> is
  counted twice, and the message is the preamble followed by \<open>t has l\<close>: the count 2
  does not occur in it.
\<close>

theorem status_message_omits_count_counterexample:
  "status_tuples (''t'' @ [TAB] @ ''p'' @ [TAB] @ ''l'' @ [TAB] @ ''r'' @ [TAB] @ ''i'' @ [LF] @
                  ''t'' @ [TAB] @ ''p'' @ [TAB] @ ''l'' @ [TAB] @ ''r'' @ [TAB] @ ''i'')
     = Inr [(''t'', ''l''), (''t'', ''l'')]
   \<and> Counter [(''t'', ''l''), (''t'', ''l'')] = [((''t'', ''l''), 2)]
   \<and> perform_on_host_status (\<lambda>kvs. kvs)
        (\<lambda>command. ''t'' @ [TAB] @ ''p'' @ [TAB] @ ''l'' @ [TAB] @ ''r'' @ [TAB] @ ''i'' @ [LF] @
                    ''t'' @ [TAB] @ ''p'' @ [TAB] @ ''l'' @ [TAB] @ ''r'' @ [TAB] @ ''i'')
        \<lparr>kafka_list_topic_command = ''/opt/kafka/bin/kafka-list-topic.sh'', zookeeper_nodes = ''zk:2181''\<rparr>
        ''broker1'' []
     = (None, [(''broker1'',
          ''Kafka partitions are out of sync. Multiple leaders for the same partition for the same replica: t has l'')])
   \<and> \<not> py_in (str_int 2)
          ''Kafka partitions are out of sync. Multiple leaders for the same partition for the same replica: t has l''"
  by code_simp

text \<open>
  Claim C4, amended. When some (topic, leader) pair occurs more than once among the
  parsed records of an output without markers, the status checker records one failure
  whose message is the fixed preamble followed by the duplicated pairs, each exactly once
  and written \<open>topic has leader\<close>, separated by a comma and a space. The count of
  occurrences is not part of the message.
\<close>

theorem status_failure_lists_duplicates:
  assumes "dict_order items_order"
      and "\<not> has_error_pattern (run (status_command self))"
      and "status_tuples (run (status_command self)) = Inr tuples"
      and "p \<in> set tuples" and "1 < count_list tuples p"
  shows "\<exists>duplicates. distinct duplicates
           \<and> set duplicates = {q \<in> set tuples. 1 < count_list tuples q}
           \<and> p \<in> set duplicates
           \<and> perform_on_host_status items_order run self host reports =
               (None, reports @ [(host,
                  ''Kafka partitions are out of sync. Multiple leaders for the same partition for the same replica: '' @
                  py_join '', '' (map (\<lambda>(topic, leader). topic @ '' has '' @ leader) duplicates))])"
proof -
  let ?d = "status_duplicates items_order tuples"
  have s: "set ?d = {q \<in> set tuples. 1 < count_list tuples q}"
    by (rule status_duplicates_set [OF assms(1)])
  with assms(4,5) have p: "p \<in> set ?d" by simp
  then have ne: "?d \<noteq> []" by auto
  have "perform_on_host_status items_order run self host reports =
        (None, fail_on_host host (status_message ?d) reports)"
    using perform_status_no_marker [where run = run and self = self, OF assms(2,3)] ne by simp
  moreover have "(\<lambda>dup. fst dup @ '' has '' @ snd dup) = (\<lambda>(topic, leader). topic @ '' has '' @ leader)"
    by (simp add: fun_eq_iff)
  ultimately have "perform_on_host_status items_order run self host reports =
               (None, reports @ [(host,
                  ''Kafka partitions are out of sync. Multiple leaders for the same partition for the same replica: '' @
                  py_join '', '' (map (\<lambda>(topic, leader). topic @ '' has '' @ leader) ?d))])"
    by (simp add: fail_on_host_def status_message_def)
  with s p status_duplicates_distinct [OF assms(1), of tuples] show ?thesis by blast
qed

text \<open>
  Three groups, the first and the third with the same topic and leader.
\<close>

theorem status_failure_lists_duplicates_witness:
  "dict_order (\<lambda>kvs. kvs)
   \<and> \<not> has_error_pattern (''t'' @ [TAB] @ ''p'' @ [TAB] @ ''l'' @ [TAB] @ ''r'' @ [TAB] @ ''i'' @ [LF] @
                           ''u'' @ [TAB] @ ''p'' @ [TAB] @ ''m'' @ [TAB] @ ''r'' @ [TAB] @ ''i'' @ [LF] @
                           ''t'' @ [TAB] @ ''q'' @ [TAB] @ ''l'' @ [TAB] @ ''r'' @ [TAB] @ ''i'')
   \<and> status_tuples (''t'' @ [TAB] @ ''p'' @ [TAB] @ ''l'' @ [TAB] @ ''r'' @ [TAB] @ ''i'' @ [LF] @
                           ''u'' @ [TAB] @ ''p'' @ [TAB] @ ''m'' @ [TAB] @ ''r'' @ [TAB] @ ''i'' @ [LF] @
                           ''t'' @ [TAB] @ ''q'' @ [TAB] @ ''l'' @ [TAB] @ ''r'' @ [TAB] @ ''i'')
       = Inr [(''t'', ''l''), (''u'', ''m''), (''t'', ''l'')]
   \<and> count_list [(''t'', ''l''), (''u'', ''m''), (''t'', ''l'')] (''t'', ''l'') = 2
   \<and> perform_on_host_status (\<lambda>kvs. kvs)
        (\<lambda>command. ''t'' @ [TAB] @ ''p'' @ [TAB] @ ''l'' @ [TAB] @ ''r'' @ [TAB] @ ''i'' @ [LF] @
                           ''u'' @ [TAB] @ ''p'' @ [TAB] @ ''m'' @ [TAB] @ ''r'' @ [TAB] @ ''i'' @ [LF] @
                           ''t'' @ [TAB] @ ''q'' @ [TAB] @ ''l'' @ [TAB] @ ''r'' @ [TAB] @ ''i'')
        \<lparr>kafka_list_topic_command = ''/opt/kafka/bin/kafka-list-topic.sh'', zookeeper_nodes = ''zk:2181''\<rparr>
        ''broker1'' []
       = (None, [(''broker1'',
            ''Kafka partitions are out of sync. Multiple leaders for the same partition for the same replica: t has l'')])"
proof -
  let ?output = "''t'' @ [TAB] @ ''p'' @ [TAB] @ ''l'' @ [TAB] @ ''r'' @ [TAB] @ ''i'' @ [LF] @
                           ''u'' @ [TAB] @ ''p'' @ [TAB] @ ''m'' @ [TAB] @ ''r'' @ [TAB] @ ''i'' @ [LF] @
                           ''t'' @ [TAB] @ ''q'' @ [TAB] @ ''l'' @ [TAB] @ ''r'' @ [TAB] @ ''i''"
  let ?tuples = "[(''t'', ''l''), (''u'', ''m''), (''t'', ''l'')]"
  have m: "\<not> has_error_pattern ?output"
    by (simp add: has_error_pattern_def error_patterns_def)
  have t: "status_tuples ?output = Inr ?tuples"
    by code_simp
  have c: "count_list ?tuples (''t'', ''l'') = 2"
    by simp
  have e: "perform_on_host_status (\<lambda>kvs. kvs) (\<lambda>command. ?output)
        \<lparr>kafka_list_topic_command = ''/opt/kafka/bin/kafka-list-topic.sh'', zookeeper_nodes = ''zk:2181''\<rparr>
        ''broker1'' []
       = (None, [(''broker1'',
            ''Kafka partitions are out of sync. Multiple leaders for the same partition for the same replica: t has l'')])"
    by code_simp
  from status_failure_lists_duplicates [OF dict_order_id, of "\<lambda>command. ?output"
       "\<lparr>kafka_list_topic_command = ''/opt/kafka/bin/kafka-list-topic.sh'', zookeeper_nodes = ''zk:2181''\<rparr>"
       ?tuples "(''t'', ''l'')" "''broker1''" "[]"] m t c e dict_order_id
  show ?thesis by simp
qed

text \<open>
  Claim C5. When an output without markers splits on tab and newline into ten tokens,
  that is two groups of five, and the tokens in slots 0 and 2 of the two groups agree,
  the status checker records a failure whose message names that pair: the preamble
  followed by the topic token, \<open>has\<close>, and the leader token.
\<close>

theorem status_same_pair_twice_fails:
  assumes "dict_order items_order"
      and "\<not> has_error_pattern (run (status_command self))"
      and "re_split_tab_nl (run (status_command self)) = [t0, t1, t2, t3, t4, t5, t6, t7, t8, t9]"
      and "t5 = t0" and "t7 = t2"
  shows "perform_on_host_status items_order run self host reports =
           (None, reports @ [(host,
              ''Kafka partitions are out of sync. Multiple leaders for the same partition for the same replica: '' @
              t0 @ '' has '' @ t2)])"
proof -
  let ?parsed = "[t0, t1, t2, t3, t4, t5, t6, t7, t8, t9]"
  have u: "[0 ..< (length ?parsed + 2) div 5] = [0, Suc 0]"
    by (simp add: upt_conv_Cons)
  have "status_tuples (run (status_command self)) =
          Inr (map (\<lambda>k. (?parsed ! (5 * k), ?parsed ! (5 * k + 2))) [0 ..< (length ?parsed + 2) div 5])"
    unfolding status_tuples_eq assms(3) zip_strides ..
  then have t: "status_tuples (run (status_command self)) = Inr [(t0, t2), (t0, t2)]"
    unfolding u by (simp add: assms(4,5))
  have c: "Counter [(t0, t2), (t0, t2)] = [((t0, t2), 2)]"
    by (simp add: Counter_def)
  have d: "status_duplicates items_order [(t0, t2), (t0, t2)] = [(t0, t2)]"
    unfolding status_duplicates_def c dict_order_single [OF assms(1)] by simp
  show ?thesis
    using perform_status_no_marker [where run = run and self = self, OF assms(2) t, of items_order host reports]
    by (simp add: d status_message_def fail_on_host_def)
qed

text \<open>
  Two lines of five tab-separated fields with the same first and third field.
\<close>

theorem status_same_pair_twice_fails_witness:
  "dict_order (\<lambda>kvs. kvs)
   \<and> \<not> has_error_pattern (''a'' @ [TAB] @ ''0'' @ [TAB] @ ''1'' @ [TAB] @ ''r'' @ [TAB] @ ''i'' @ [LF] @
                           ''a'' @ [TAB] @ ''0'' @ [TAB] @ ''1'' @ [TAB] @ ''s'' @ [TAB] @ ''j'')
   \<and> re_split_tab_nl (''a'' @ [TAB] @ ''0'' @ [TAB] @ ''1'' @ [TAB] @ ''r'' @ [TAB] @ ''i'' @ [LF] @
                      ''a'' @ [TAB] @ ''0'' @ [TAB] @ ''1'' @ [TAB] @ ''s'' @ [TAB] @ ''j'')
       = [''a'', ''0'', ''1'', ''r'', ''i'', ''a'', ''0'', ''1'', ''s'', ''j'']
   \<and> perform_on_host_status (\<lambda>kvs. kvs)
        (\<lambda>command. ''a'' @ [TAB] @ ''0'' @ [TAB] @ ''1'' @ [TAB] @ ''r'' @ [TAB] @ ''i'' @ [LF] @
                    ''a'' @ [TAB] @ ''0'' @ [TAB] @ ''1'' @ [TAB] @ ''s'' @ [TAB] @ ''j'')
        \<lparr>kafka_list_topic_command = ''/opt/kafka/bin/kafka-list-topic.sh'', zookeeper_nodes = ''zk:2181''\<rparr>
        ''broker1'' []
       = (None, [(''broker1'',
            ''Kafka partitions are out of sync. Multiple leaders for the same partition for the same replica: a has 1'')])"
proof -
  let ?output = "''a'' @ [TAB] @ ''0'' @ [TAB] @ ''1'' @ [TAB] @ ''r'' @ [TAB] @ ''i'' @ [LF] @
                 ''a'' @ [TAB] @ ''0'' @ [TAB] @ ''1'' @ [TAB] @ ''s'' @ [TAB] @ ''j''"
  have m: "\<not> has_error_pattern ?output"
    by (simp add: has_error_pattern_def error_patterns_def)
  have p: "re_split_tab_nl ?output = [''a'', ''0'', ''1'', ''r'', ''i'', ''a'', ''0'', ''1'', ''s'', ''j'']"
    by simp
  from status_same_pair_twice_fails [OF dict_order_id, of "\<lambda>command. ?output"
       "\<lparr>kafka_list_topic_command = ''/opt/kafka/bin/kafka-list-topic.sh'', zookeeper_nodes = ''zk:2181''\<rparr>"
       "''a''" "''0''" "''1''" "''r''" "''i''" "''a''" "''0''" "''1''" "''s''" "''j''" "''broker1''" "[]"]
       m p dict_order_id
  show ?thesis by simp
qed

section \<open>The verdict of the lag checker\<close>

lemma perform_lag_no_marker:
  assumes "\<not> has_error_pattern (run (lag_command self))"
  shows "perform_on_host_lag run self host reports =
         (case lag_tuples (run (lag_command self)) of
            Inl e \<Rightarrow> (Some e, reports)
          | Inr tuples \<Rightarrow>
              if laggers_of tuples = [] then (None, reports)
              else (None, fail_on_host host (lag_message (laggers_of tuples)) reports))"
  using assms by (simp add: perform_on_host_lag_def Let_def split: sum.splits)

lemma laggers_none:
  assumes "\<forall>l \<in> set lags. l \<le> 5"
  shows "laggers_of (zip topics (zip pids lags)) = []"
proof -
  have "\<And>x y z. (x, y, z) \<in> set (zip topics (zip pids lags)) \<Longrightarrow> z \<in> set lags"
    by (meson set_zip_rightD)
  with assms have "\<And>x y z. (x, y, z) \<in> set (zip topics (zip pids lags)) \<Longrightarrow> \<not> 5 < z"
    by fastforce
  then show ?thesis
    unfolding laggers_of_def by (auto simp: filter_empty_conv)
qed

lemma lag_topics_total: "\<forall>item \<in> set rows. 2 < length item \<Longrightarrow> \<exists>topics. lag_topics rows = Inr topics"
  unfolding lag_topics_def
  by (induction rows) (auto simp: res_bind_def py_index_def)

lemma lag_pids_total: "\<forall>item \<in> set rows. 2 < length item \<Longrightarrow> \<exists>pids. lag_pids rows = Inr pids"
  unfolding lag_pids_def
  by (induction rows) (auto simp: res_bind_def py_index_def)

lemma lag_rows_length: "item \<in> set (lag_rows output) \<Longrightarrow> 2 < length item"
  by (auto simp: lag_rows_def)

lemma lag_tuples_cases:
  "(\<exists>topics pids lags. lag_topics (lag_rows output) = Inr topics \<and> lag_pids (lag_rows output) = Inr pids
      \<and> lag_lags (lag_rows output) = Inr lags \<and> lag_tuples output = Inr (zip topics (zip pids lags)))
   \<or> (lag_lags (lag_rows output) = Inl IndexError \<and> lag_tuples output = Inl IndexError)"
proof -
  obtain topics where t: "lag_topics (lag_rows output) = Inr topics"
    using lag_topics_total [of "lag_rows output"] lag_rows_length by blast
  obtain pids where p: "lag_pids (lag_rows output) = Inr pids"
    using lag_pids_total [of "lag_rows output"] lag_rows_length by blast
  show ?thesis
  proof (cases "lag_lags (lag_rows output)")
    case (Inl e)
    then have "lag_lags (lag_rows output) = Inl IndexError" by (cases e) simp
    then show ?thesis by (simp add: lag_tuples_def t p res_bind_def)
  next
    case (Inr lags)
    then show ?thesis by (simp add: lag_tuples_def t p res_bind_def)
  qed
qed

text \<open>
  Claim C2. Record extraction should never raise; in particular the lag checker should not
  raise on a line that splits into more than 2 and fewer than 6 fields. The line
  \<open>a  b  c\<close> splits into three fields, passes the filter \<open>len(...) > 2\<close>, and the
  comprehension for \<open>lags\<close> evaluates \<open>item[5]\<close> on it: IndexError leaves
  \<open>perform_on_host\<close>.
\<close>

theorem short_row_raises_IndexError:
  "lag_rows ''a  b  c'' = [[''a'', ''b'', ''c'']]
   \<and> lag_lags [[''a'', ''b'', ''c'']] = Inl IndexError
   \<and> perform_on_host_lag (\<lambda>command. ''a  b  c'') self host reports = (Some IndexError, reports)"
  by (simp add: perform_on_host_lag_def lag_tuples_def lag_rows_def lag_topics_def lag_pids_def lag_lags_def
       has_error_pattern_def error_patterns_def res_bind_def py_index_def is_space_def py_isdigit_def is_digit_def)

text \<open>
  Claim C6. When the only line of an output without markers that splits into more than
  two fields is \<open>ignored  mytopic  3  x  x  10\<close>, the lag checker records a failure
  whose message contains \<open>mytopic on PID 3 is lagging by 10 messages.\<close>
\<close>

theorem lag_row_mytopic_fails:
  assumes "\<not> has_error_pattern (run (lag_command self))"
      and "filter (\<lambda>p. 2 < length (re_split_ws2 p)) (re_split_tab_crlf (run (lag_command self)))
             = [''ignored  mytopic  3  x  x  10'']"
  shows "perform_on_host_lag run self host reports =
           (None, reports @ [(host, ''Kafka consumers are lagging on topic mytopic on PID 3 is lagging by 10 messages.'')])
         \<and> py_in ''mytopic on PID 3 is lagging by 10 messages.''
              ''Kafka consumers are lagging on topic mytopic on PID 3 is lagging by 10 messages.''"
proof -
  have s: "re_split_ws2 ''ignored  mytopic  3  x  x  10'' = [''ignored'', ''mytopic'', ''3'', ''x'', ''x'', ''10'']"
    by (simp add: is_space_def)
  have r: "lag_rows (run (lag_command self)) = [[''ignored'', ''mytopic'', ''3'', ''x'', ''x'', ''10'']]"
    unfolding lag_rows_def assms(2) using s by simp
  have t: "lag_tuples (run (lag_command self)) = Inr [(''mytopic'', ''3'', 10)]"
    unfolding lag_tuples_def r
    by (simp add: lag_topics_def lag_pids_def lag_lags_def res_bind_def py_index_def
          py_isdigit_def is_digit_def py_int_def digit_val_def)
  have n: "str_int 10 = ''10''"
    by (simp add: str_int_def str_nat.simps)
  have "perform_on_host_lag run self host reports =
           (None, reports @ [(host, ''Kafka consumers are lagging on topic mytopic on PID 3 is lagging by 10 messages.'')])"
    using perform_lag_no_marker [where run = run and self = self, OF assms(1), of host reports]
    by (simp add: t laggers_of_def lag_message_def fail_on_host_def n)
  moreover have "py_in ''mytopic on PID 3 is lagging by 10 messages.''
              ''Kafka consumers are lagging on topic mytopic on PID 3 is lagging by 10 messages.''"
    by simp
  ultimately show ?thesis by simp
qed

text \<open>
  A line with two fields, which is not a data row, followed by the data row.
\<close>

theorem lag_row_mytopic_fails_witness:
  "\<not> has_error_pattern (''Group  Topic'' @ [CR, LF] @ ''ignored  mytopic  3  x  x  10'')
   \<and> filter (\<lambda>p. 2 < length (re_split_ws2 p))
        (re_split_tab_crlf (''Group  Topic'' @ [CR, LF] @ ''ignored  mytopic  3  x  x  10''))
       = [''ignored  mytopic  3  x  x  10'']
   \<and> perform_on_host_lag (\<lambda>command. ''Group  Topic'' @ [CR, LF] @ ''ignored  mytopic  3  x  x  10'')
        \<lparr>lag_zookeeper_nodes = ''zk:2181''\<rparr> ''broker1'' []
       = (None, [(''broker1'', ''Kafka consumers are lagging on topic mytopic on PID 3 is lagging by 10 messages.'')])"
proof -
  let ?output = "''Group  Topic'' @ [CR, LF] @ ''ignored  mytopic  3  x  x  10''"
  have m: "\<not> has_error_pattern ?output"
    by (simp add: has_error_pattern_def error_patterns_def)
  have f: "filter (\<lambda>p. 2 < length (re_split_ws2 p)) (re_split_tab_crlf ?output)
             = [''ignored  mytopic  3  x  x  10'']"
    by (simp add: is_space_def)
  from lag_row_mytopic_fails [of "\<lambda>command. ?output" "\<lparr>lag_zookeeper_nodes = ''zk:2181''\<rparr>" "''broker1''" "[]"] m f
  show ?thesis by simp
qed

text \<open>
  Claim C7. For every output without markers in which every parsed lag is at most 5, the
  lag checker passes, that is \<open>fail_on_host\<close> is not called: the recorded failures are
  unchanged, and where the list of lags is parsed \<open>perform_on_host\<close> also returns
  without an exception. Only triples with a lag strictly greater than 5 are reported:
  whenever the triples are parsed, the method returns, records nothing if no triple has a
  lag above 5, and otherwise records one failure whose message lists exactly the triples
  with a lag above 5, in their order, so that a lag of exactly 5 is never listed.
\<close>

theorem lag_reports_exactly_lags_above_5:
  assumes "\<not> has_error_pattern (run (lag_command self))"
  shows "((\<forall>lags. lag_lags (lag_rows (run (lag_command self))) = Inr lags \<longrightarrow> (\<forall>l \<in> set lags. l \<le> 5)) \<longrightarrow>
            snd (perform_on_host_lag run self host reports) = reports
          \<and> ((\<exists>lags. lag_lags (lag_rows (run (lag_command self))) = Inr lags) \<longrightarrow>
                perform_on_host_lag run self host reports = (None, reports)))
       \<and> (\<forall>tuples. lag_tuples (run (lag_command self)) = Inr tuples \<longrightarrow>
            perform_on_host_lag run self host reports =
              (None,
               if filter (\<lambda>(topic, pid, lag). 5 < lag) tuples = [] then reports
               else reports @ [(host,
                 ''Kafka consumers are lagging on topic '' @
                 py_join '', ''
                   (map (\<lambda>(topic, pid, lag).
                           topic @ '' on PID '' @ pid @ '' is lagging by '' @ str_int lag @ '' messages.'')
                      (filter (\<lambda>(topic, pid, lag). 5 < lag) tuples)))]))"
proof (intro conjI impI allI)
  let ?output = "run (lag_command self)"
  note p = perform_lag_no_marker [where run = run and self = self, OF assms, of host reports]
  {
    assume le: "\<forall>lags. lag_lags (lag_rows ?output) = Inr lags \<longrightarrow> (\<forall>l \<in> set lags. l \<le> 5)"
    have both: "snd (perform_on_host_lag run self host reports) = reports
          \<and> ((\<exists>lags. lag_lags (lag_rows ?output) = Inr lags) \<longrightarrow>
                perform_on_host_lag run self host reports = (None, reports))"
      using lag_tuples_cases [of ?output]
    proof (elim disjE exE conjE)
      fix topics pids lags
      assume l: "lag_lags (lag_rows ?output) = Inr lags"
         and t: "lag_tuples ?output = Inr (zip topics (zip pids lags))"
      from le l have "\<forall>l \<in> set lags. l \<le> 5" by blast
      then have "laggers_of (zip topics (zip pids lags)) = []" by (rule laggers_none)
      with p t have "perform_on_host_lag run self host reports = (None, reports)" by simp
      then show ?thesis by simp
    next
      assume l: "lag_lags (lag_rows ?output) = Inl IndexError"
         and t: "lag_tuples ?output = Inl IndexError"
      with p have "perform_on_host_lag run self host reports = (Some IndexError, reports)" by simp
      with l show ?thesis by simp
    qed
    from both show "snd (perform_on_host_lag run self host reports) = reports" by blast
    assume "\<exists>lags. lag_lags (lag_rows ?output) = Inr lags"
    with both show "perform_on_host_lag run self host reports = (None, reports)" by blast
  }
  fix tuples
  assume t: "lag_tuples ?output = Inr tuples"
  show "perform_on_host_lag run self host reports =
              (None,
               if filter (\<lambda>(topic, pid, lag). 5 < lag) tuples = [] then reports
               else reports @ [(host,
                 ''Kafka consumers are lagging on topic '' @
                 py_join '', ''
                   (map (\<lambda>(topic, pid, lag).
                           topic @ '' on PID '' @ pid @ '' is lagging by '' @ str_int lag @ '' messages.'')
                      (filter (\<lambda>(topic, pid, lag). 5 < lag) tuples)))])"
    using p t by (simp add: laggers_of_def lag_message_def fail_on_host_def)
qed

text \<open>
  The header of the offset checker and one row with a lag of exactly 5, which passes;
  and two rows with lags 5 and 6, of which only the second is reported.
\<close>

theorem lag_reports_exactly_lags_above_5_witness:
  "\<not> has_error_pattern (''Group  Topic  Pid Offset  logSize  Lag  Owner'' @ [CR, LF] @ ''g  t  0  15  20  5  none'')
   \<and> lag_lags (lag_rows (''Group  Topic  Pid Offset  logSize  Lag  Owner'' @ [CR, LF] @ ''g  t  0  15  20  5  none'')) = Inr [5]
   \<and> perform_on_host_lag (\<lambda>command. ''Group  Topic  Pid Offset  logSize  Lag  Owner'' @ [CR, LF] @ ''g  t  0  15  20  5  none'')
        \<lparr>lag_zookeeper_nodes = ''zk:2181''\<rparr> ''broker1'' [] = (None, [])
   \<and> \<not> has_error_pattern (''g  t  0  15  20  5  none'' @ [CR, LF] @ ''g  t  1  14  20  6  none'')
   \<and> lag_tuples (''g  t  0  15  20  5  none'' @ [CR, LF] @ ''g  t  1  14  20  6  none'')
       = Inr [(''t'', ''0'', 5), (''t'', ''1'', 6)]
   \<and> perform_on_host_lag (\<lambda>command. ''g  t  0  15  20  5  none'' @ [CR, LF] @ ''g  t  1  14  20  6  none'')
        \<lparr>lag_zookeeper_nodes = ''zk:2181''\<rparr> ''broker1'' []
       = (None, [(''broker1'', ''Kafka consumers are lagging on topic t on PID 1 is lagging by 6 messages.'')])"
proof -
  let ?a = "''Group  Topic  Pid Offset  logSize  Lag  Owner'' @ [CR, LF] @ ''g  t  0  15  20  5  none''"
  let ?b = "''g  t  0  15  20  5  none'' @ [CR, LF] @ ''g  t  1  14  20  6  none''"
  let ?self = "\<lparr>lag_zookeeper_nodes = ''zk:2181''\<rparr>"
  have ma: "\<not> has_error_pattern ?a"
    by (simp add: has_error_pattern_def error_patterns_def)
  have mb: "\<not> has_error_pattern ?b"
    by (simp add: has_error_pattern_def error_patterns_def)
  have la: "lag_lags (lag_rows ?a) = Inr [5]"
    by code_simp
  have tb: "lag_tuples ?b = Inr [(''t'', ''0'', 5), (''t'', ''1'', 6)]"
    by code_simp
  have n: "str_int 6 = ''6''"
    by (simp add: str_int_def str_nat.simps)
  from lag_reports_exactly_lags_above_5 [of "\<lambda>command. ?a" ?self "''broker1''" "[]"] ma la
  have ra: "perform_on_host_lag (\<lambda>command. ?a) ?self ''broker1'' [] = (None, [])"
    by simp
  from lag_reports_exactly_lags_above_5 [of "\<lambda>command. ?b" ?self "''broker1''" "[]"] mb tb
  have rb: "perform_on_host_lag (\<lambda>command. ?b) ?self ''broker1'' []
       = (None, [(''broker1'', ''Kafka consumers are lagging on topic t on PID 1 is lagging by 6 messages.'')])"
    by (simp add: n)
  from ma la ra mb tb rb show ?thesis by simp
qed

text \<open>
  Claim C8. A row whose topic field is exactly \<open>Topic\<close> should be left out of the
  evaluation altogether, so that no reported triple takes its topic, pid or lag from it,
  even when its pid and lag are numeric. The three comprehensions filter separately: the
  row \<open>g  Topic  7  x  x  99\<close> is dropped from \<open>topics\<close> only, its pid 7 and its lag
  99 stay in \<open>pids\<close> and \<open>lags\<close>, and \<open>zip\<close> pairs them with the topic of the
  next row, whose own lag is 0: the failure reported is for \<open>real\<close> on PID 7 with a lag
  of 99.
\<close>

theorem topic_header_row_leaks_pid_and_lag:
  "lag_rows (''g  Topic  7  x  x  99'' @ [CR, LF] @ ''g  real  1  x  x  0'')
     = [[''g'', ''Topic'', ''7'', ''x'', ''x'', ''99''], [''g'', ''real'', ''1'', ''x'', ''x'', ''0'']]
   \<and> lag_tuples (''g  Topic  7  x  x  99'' @ [CR, LF] @ ''g  real  1  x  x  0'')
     = Inr [(''real'', ''7'', 99)]
   \<and> perform_on_host_lag (\<lambda>command. ''g  Topic  7  x  x  99'' @ [CR, LF] @ ''g  real  1  x  x  0'')
        \<lparr>lag_zookeeper_nodes = ''zk:2181''\<rparr> ''broker1'' []
     = (None, [(''broker1'', ''Kafka consumers are lagging on topic real on PID 7 is lagging by 99 messages.'')])"
  by code_simp

section \<open>The checkers as functions of the output\<close>





end
